theory Spec2Isabelle
  imports Complex_Main "HOL-Library.AList"
begin

section \<open>Numbers\<close>

text \<open>
  The program computes with Python floats. They are modelled as real numbers: the
  arithmetic of the model is exact, the rounding of IEEE doubles is not part of it.
  Python integers are \<open>int\<close>. A division by zero raises in Python and is written out
  as a branch wherever the source can reach one.
\<close>

text \<open>\<^verbatim>\<open>helpers.safe_divide(numerator, denominator, default=0.0)\<close>\<close>

definition safe_divide :: "real \<Rightarrow> real \<Rightarrow> real \<Rightarrow> real" where
  "safe_divide numerator denominator dflt =
     (if denominator = 0 then dflt else numerator / denominator)"

text \<open>
  Python's \<^verbatim>\<open>round(x, ndigits)\<close>: the nearest multiple of \<open>10^-ndigits\<close>, a tie going
  to the even neighbour.
\<close>

definition round_half_even :: "real \<Rightarrow> int" where
  "round_half_even y =
     (let f = \<lfloor>y\<rfloor>; r = y - of_int f
      in if r < 1 / 2 then f else if r > 1 / 2 then f + 1 else if even f then f else f + 1)"

definition py_round :: "real \<Rightarrow> nat \<Rightarrow> real" where
  "py_round x ndigits = of_int (round_half_even (x * 10 ^ ndigits)) / 10 ^ ndigits"

section \<open>The grid engine (core/grid\_engine.py)\<close>

subsection \<open>State\<close>

datatype side = Buy | Sell

text \<open>One value of the dictionary \<^verbatim>\<open>grid_levels\<close>: keys 'side', 'level', 'occupied', 'last\_attempt'.\<close>

record level_info =
  side :: side
  level :: int
  occupied :: bool
  last_attempt :: real

text \<open>The dataclass \<^verbatim>\<open>GridState\<close>.\<close>

record grid_state =
  base_price :: real
  current_price :: real
  grid_size :: real
  upper_band :: real
  lower_band :: real
  last_adjustment_time :: real
  volatility :: real
  price_history :: "real list"

text \<open>An order handle as the exchange returns it; the engine reads its 'id' only.\<close>

record order =
  order_id :: string

text \<open>
  The settings the engine reads: \<^verbatim>\<open>settings.trading.symbol\<close> (its base asset),
  \<^verbatim>\<open>settings.trading.min_trade_amount\<close>, \<^verbatim>\<open>settings.initial_base_price\<close> and
  \<^verbatim>\<open>settings.grid.initial_size\<close>.
\<close>

record engine_settings =
  base_asset :: string
  min_trade_amount :: real
  initial_base_price :: real
  initial_size :: real

text \<open>
  The fields of \<^verbatim>\<open>GridEngine\<close>. The two dictionaries keep their insertion order, as
  Python's do: they are association lists, written with \<open>AList.update\<close> (an existing key
  keeps its place, a new key goes last). \<^verbatim>\<open>active_orders\<close> may hold \<^verbatim>\<open>None\<close> for a level.
\<close>

record engine =
  settings :: engine_settings
  grid_state :: grid_state
  is_running :: bool
  active_orders :: "(real \<times> order option) list"
  grid_levels :: "(real \<times> level_info) list"
  last_trade_time :: real
  last_trade_price :: real
  trade_count :: int
  failed_order_cooldown :: real
  total_profit :: real

text \<open>\<^verbatim>\<open>GridState()\<close> and \<^verbatim>\<open>GridEngine.__init__\<close>\<close>

definition new_grid_state :: grid_state where
  "new_grid_state =
     \<lparr>base_price = 0, current_price = 0, grid_size = 2, upper_band = 0, lower_band = 0,
      last_adjustment_time = 0, volatility = 0, price_history = []\<rparr>"

definition new_engine :: "engine_settings \<Rightarrow> engine" where
  "new_engine st =
     \<lparr>settings = st, grid_state = new_grid_state, is_running = False, active_orders = [],
      grid_levels = [], last_trade_time = 0, last_trade_price = 0, trade_count = 0,
      failed_order_cooldown = 300, total_profit = 0\<rparr>"

subsection \<open>The level table\<close>

text \<open>
  The body of the loop of \<^verbatim>\<open>_initialize_grid_levels\<close> for one index \<open>i\<close>; the index 0 is
  skipped.
\<close>

definition level_price :: "real \<Rightarrow> real \<Rightarrow> int \<Rightarrow> real" where
  "level_price base grid_decimal i = py_round (base * (1 + (of_int i * grid_decimal))) 4"

definition grid_level_entry :: "real \<Rightarrow> real \<Rightarrow> int \<Rightarrow> real \<times> level_info" where
  "grid_level_entry base grid_decimal i =
     (level_price base grid_decimal i,
      \<lparr>side = (if i < 0 then Buy else Sell), level = i, occupied = False, last_attempt = 0\<rparr>)"

definition add_grid_level ::
  "real \<Rightarrow> real \<Rightarrow> (real \<times> level_info) list \<Rightarrow> int \<Rightarrow> (real \<times> level_info) list" where
  "add_grid_level base grid_decimal levels i =
     (if i = 0 then levels
      else AList.update (fst (grid_level_entry base grid_decimal i))
             (snd (grid_level_entry base grid_decimal i)) levels)"

text \<open>\<^verbatim>\<open>for i in range(-5, 6)\<close> over an empty table.\<close>

definition build_grid_levels :: "real \<Rightarrow> real \<Rightarrow> (real \<times> level_info) list" where
  "build_grid_levels base gsize =
     foldl (add_grid_level base (gsize / 100)) [] [-5, -4, -3, -2, -1, 0, 1, 2, 3, 4, 5]"

text \<open>
  \<^verbatim>\<open>_initialize_grid_levels\<close> with \<^verbatim>\<open>_update_existing_grid_levels\<close>: an empty table is
  built; an existing one is rebuilt when its first key is more than 1.0 away from the
  price expected for index -5, and kept otherwise.
\<close>

definition initialize_grid_levels :: "engine \<Rightarrow> engine" where
  "initialize_grid_levels e =
     (let base = base_price (grid_state e); gsize = grid_size (grid_state e)
      in case grid_levels e of
           [] \<Rightarrow> e\<lparr>grid_levels := build_grid_levels base gsize\<rparr>
         | (first_level, _) # _ \<Rightarrow>
             (let expected_price = py_round (base * (1 + (-5 * (gsize / 100)))) 4
              in if \<bar>first_level - expected_price\<bar> > 1.0
                 then e\<lparr>grid_levels := build_grid_levels base gsize\<rparr>
                 else e))"

subsection \<open>Collaborators of the engine\<close>

text \<open>Python's \<^verbatim>\<open>d.get(key, default)\<close>.\<close>

definition dict_get :: "('k \<rightharpoonup> 'v) \<Rightarrow> 'k \<Rightarrow> 'v \<Rightarrow> 'v" where
  "dict_get d k dflt = (case d k of None \<Rightarrow> dflt | Some v \<Rightarrow> v)"

text \<open>What \<^verbatim>\<open>exchange.get_balance()\<close> returns: the dictionaries 'free' and 'total', by asset.\<close>

record balance =
  bal_free :: "string \<rightharpoonup> real"
  bal_total :: "string \<rightharpoonup> real"

text \<open>
  What \<^verbatim>\<open>exchange.get_order_status\<close> returns. A field is \<open>None\<close> when reading it raises
  (the key is missing, or \<^verbatim>\<open>float()\<close> rejects the value).
\<close>

record order_status =
  st_status :: string
  st_price :: "real option"
  st_filled :: "real option"
  st_id :: "string option"

datatype notification =
  TradeExecution side real real real real
  | SystemStatus string

text \<open>The calls the engine makes to the exchange and the notifier, in the order made.\<close>

datatype call =
  GetBalance
  | CreateLimitOrder side real real
  | CancelOrder string
  | GetOrderStatus string
  | Notify notification

text \<open>
  The exchange and the notifier are external: each operation is a function of an
  exchange state \<open>'x\<close> of which the engine knows nothing. An operation that raises
  returns \<open>None\<close> (or \<open>False\<close> where the result is not used).
  \<^verbatim>\<open>create_limit_order\<close> takes side, amount and price and may return Python's \<^verbatim>\<open>None\<close>
  for the order. The notifier is optional, as in \<^verbatim>\<open>GridEngine.__init__\<close>. The clock is
  an argument: every \<^verbatim>\<open>time.time()\<close> of one call reads the time given to that call.
\<close>

record 'x api =
  get_balance :: "'x \<Rightarrow> balance option \<times> 'x"
  adjust_amount_precision :: "real \<Rightarrow> real"
  create_limit_order :: "side \<Rightarrow> real \<Rightarrow> real \<Rightarrow> 'x \<Rightarrow> order option option \<times> 'x"
  cancel_order :: "string \<Rightarrow> 'x \<Rightarrow> bool \<times> 'x"
  get_order_status :: "string \<Rightarrow> 'x \<Rightarrow> order_status option \<times> 'x"
  notifier :: "(notification \<Rightarrow> 'x \<Rightarrow> bool \<times> 'x) option"

text \<open>The dictionary \<^verbatim>\<open>_save_state\<close> builds; a field is \<open>None\<close> when the key is absent.\<close>

record saved_state =
  s_base_price :: "real option"
  s_current_price :: "real option"
  s_grid_size :: "real option"
  s_last_adjustment_time :: "real option"
  s_volatility :: "real option"
  s_total_profit :: "real option"
  s_trade_count :: "int option"
  s_last_save_time :: "real option"

text \<open>The dictionary \<^verbatim>\<open>_handle_order_filled\<close> passes to \<^verbatim>\<open>save_trade\<close> (symbol and strategy apart).\<close>

record trade_record =
  tr_timestamp :: real
  tr_side :: side
  tr_price :: real
  tr_amount :: real
  tr_total :: real
  tr_profit :: real
  tr_order_id :: string
  tr_grid_level :: int

record data_manager =
  stored_state :: "saved_state option"
  trades :: "trade_record list"

text \<open>
  Modelled from the spec: \<^verbatim>\<open>DataManager.save_state\<close>, \<^verbatim>\<open>DataManager.load_state\<close> and
  \<^verbatim>\<open>DataManager.save_trade\<close> (the module data/data\_manager.py is not among the sources).
  The spec gives the persistence collaborator as \<^verbatim>\<open>saveState(snapshot)\<close>,
  \<^verbatim>\<open>loadState()\<close> returning the persisted snapshot, and \<^verbatim>\<open>saveTrade(record)\<close>: saving
  replaces the stored snapshot, loading returns it, a trade is appended to the history.
\<close>

definition save_state_dm :: "saved_state \<Rightarrow> data_manager \<Rightarrow> data_manager" where
  "save_state_dm s d = d\<lparr>stored_state := Some s\<rparr>"

definition load_state_dm :: "data_manager \<Rightarrow> saved_state option" where
  "load_state_dm d = stored_state d"

definition save_trade_dm :: "trade_record \<Rightarrow> data_manager \<Rightarrow> data_manager" where
  "save_trade_dm t d = d\<lparr>trades := trades d @ [t]\<rparr>"

text \<open>The engine with what it acts on: the persistence, the exchange state, the calls made.\<close>

record 'x world =
  eng :: engine
  dm :: data_manager
  ex :: 'x
  calls :: "call list"

definition call_get_balance :: "'x api \<Rightarrow> 'x world \<Rightarrow> balance option \<times> 'x world" where
  "call_get_balance a w =
     (let (r, x) = get_balance a (ex w) in (r, w\<lparr>ex := x, calls := calls w @ [GetBalance]\<rparr>))"

definition call_create_limit_order ::
  "'x api \<Rightarrow> side \<Rightarrow> real \<Rightarrow> real \<Rightarrow> 'x world \<Rightarrow> order option option \<times> 'x world" where
  "call_create_limit_order a sd amount price w =
     (let (r, x) = create_limit_order a sd amount price (ex w)
      in (r, w\<lparr>ex := x, calls := calls w @ [CreateLimitOrder sd amount price]\<rparr>))"

definition call_cancel_order :: "'x api \<Rightarrow> string \<Rightarrow> 'x world \<Rightarrow> bool \<times> 'x world" where
  "call_cancel_order a oid w =
     (let (r, x) = cancel_order a oid (ex w) in (r, w\<lparr>ex := x, calls := calls w @ [CancelOrder oid]\<rparr>))"

definition call_get_order_status ::
  "'x api \<Rightarrow> string \<Rightarrow> 'x world \<Rightarrow> order_status option \<times> 'x world" where
  "call_get_order_status a oid w =
     (let (r, x) = get_order_status a oid (ex w)
      in (r, w\<lparr>ex := x, calls := calls w @ [GetOrderStatus oid]\<rparr>))"

definition call_notify ::
  "(notification \<Rightarrow> 'x \<Rightarrow> bool \<times> 'x) \<Rightarrow> notification \<Rightarrow> 'x world \<Rightarrow> bool \<times> 'x world" where
  "call_notify notify n w =
     (let (r, x) = notify n (ex w) in (r, w\<lparr>ex := x, calls := calls w @ [Notify n]\<rparr>))"

subsection \<open>Placing orders\<close>

text \<open>
  \<^verbatim>\<open>_calculate_order_amount(side, price)\<close>. Every exception ends in \<^verbatim>\<open>return 0.0\<close>: a
  failing \<^verbatim>\<open>get_balance\<close>, and the division by a price of zero on the buy side.
\<close>

definition check_min_notional :: "'x api \<Rightarrow> engine \<Rightarrow> real \<Rightarrow> real \<Rightarrow> real" where
  "check_min_notional a e order_price amount0 =
     (let amount = adjust_amount_precision a amount0;
          min_notional = min_trade_amount (settings e)
      in if amount * order_price < min_notional then 0 else amount)"

definition calculate_order_amount ::
  "'x api \<Rightarrow> side \<Rightarrow> real \<Rightarrow> 'x world \<Rightarrow> real \<times> 'x world" where
  "calculate_order_amount a sd order_price w =
     (case call_get_balance a w of
        (None, w1) \<Rightarrow> (0, w1)
      | (Some bal, w1) \<Rightarrow>
          (case sd of
             Buy \<Rightarrow>
               (let available = dict_get (bal_free bal) ''USDT'' 0;
                    max_amount = available * 0.1;
                    amount_usdt = min max_amount (min_trade_amount (settings (eng w1)))
                in if order_price = 0 then (0, w1)
                   else (check_min_notional a (eng w1) order_price (amount_usdt / order_price), w1))
           | Sell \<Rightarrow>
               (let available = dict_get (bal_free bal) (base_asset (settings (eng w1))) 0
                in (check_min_notional a (eng w1) order_price (available * 0.1), w1))))"

text \<open>The handler of \<^verbatim>\<open>_execute_grid_order\<close>: \<^verbatim>\<open>grid_levels[price_level]['last_attempt'] = time.time()\<close>.\<close>

definition record_failed_attempt :: "real \<Rightarrow> real \<Rightarrow> 'x world \<Rightarrow> 'x world" where
  "record_failed_attempt now price_level w =
     w\<lparr>eng := (eng w)\<lparr>grid_levels :=
          AList.map_entry price_level (\<lambda>info. info\<lparr>last_attempt := now\<rparr>) (grid_levels (eng w))\<rparr>\<rparr>"

definition mark_occupied :: "real \<Rightarrow> order option \<Rightarrow> 'x world \<Rightarrow> 'x world" where
  "mark_occupied price_level ord w =
     w\<lparr>eng := (eng w)\<lparr>
          grid_levels :=
            AList.map_entry price_level (\<lambda>info. info\<lparr>occupied := True\<rparr>) (grid_levels (eng w)),
          active_orders := AList.update price_level ord (active_orders (eng w))\<rparr>\<rparr>"

text \<open>
  \<^verbatim>\<open>_execute_grid_order(price_level, side)\<close>, called for keys of \<^verbatim>\<open>grid_levels\<close> only. A
  raising \<^verbatim>\<open>create_limit_order\<close> and a raising notifier both end in the handler.
\<close>

definition execute_grid_order :: "'x api \<Rightarrow> real \<Rightarrow> real \<Rightarrow> side \<Rightarrow> 'x world \<Rightarrow> 'x world" where
  "execute_grid_order a now price_level sd w =
     (case calculate_order_amount a sd price_level w of
        (amount, w1) \<Rightarrow>
          if amount \<le> 0 then w1
          else (case call_create_limit_order a sd amount price_level w1 of
                  (None, w2) \<Rightarrow> record_failed_attempt now price_level w2
                | (Some ord, w2) \<Rightarrow>
                    (let w3 = mark_occupied price_level ord w2
                     in case notifier a of
                          None \<Rightarrow> w3
                        | Some notify \<Rightarrow>
                            (case call_notify notify
                                    (TradeExecution sd price_level amount (amount * price_level) 0) w3 of
                               (True, w4) \<Rightarrow> w4
                             | (False, w4) \<Rightarrow> record_failed_attempt now price_level w4))))"

text \<open>
  One round of the loop of \<^verbatim>\<open>_check_grid_signals\<close>, for the level \<open>price_level\<close> with the
  entry \<open>level_info\<close>. \<open>Inl\<close> is an exception that leaves the loop: the debug line of a
  level that passes its guard divides by \<^verbatim>\<open>current_price\<close>.
\<close>

definition check_level ::
  "'x api \<Rightarrow> real \<Rightarrow> real \<Rightarrow> level_info \<Rightarrow> 'x world \<Rightarrow> 'x world + 'x world" where
  "check_level a current_time price_level level_info w =
     (let current_price = current_price (grid_state (eng w))
      in if occupied level_info then Inr w
         else if current_time - last_attempt level_info < failed_order_cooldown (eng w) then Inr w
         else (case side level_info of
                 Buy \<Rightarrow>
                   if price_level < current_price * 0.999
                   then (if current_price = 0 then Inl w
                         else Inr (execute_grid_order a current_time price_level Buy w))
                   else Inr w
               | Sell \<Rightarrow>
                   if price_level > current_price * 1.001
                   then (if current_price = 0 then Inl w
                         else Inr (execute_grid_order a current_time price_level Sell w))
                   else Inr w))"

text \<open>
  \<^verbatim>\<open>for price_level, level_info in self.grid_levels.items()\<close>: the keys in their order, each
  entry read when its turn comes.
\<close>

fun grid_signal_loop :: "'x api \<Rightarrow> real \<Rightarrow> real list \<Rightarrow> 'x world \<Rightarrow> 'x world + 'x world" where
  "grid_signal_loop a current_time [] w = Inr w"
| "grid_signal_loop a current_time (price_level # rest) w =
     (case map_of (grid_levels (eng w)) price_level of
        None \<Rightarrow> Inl w
      | Some level_info \<Rightarrow>
          (case check_level a current_time price_level level_info w of
             Inl w1 \<Rightarrow> Inl w1
           | Inr w1 \<Rightarrow> grid_signal_loop a current_time rest w1))"

subsection \<open>Reconciling orders\<close>

text \<open>\<^verbatim>\<open>_release_grid_level(price_level)\<close>\<close>

definition release_grid_level :: "real \<Rightarrow> 'x world \<Rightarrow> 'x world" where
  "release_grid_level price_level w =
     w\<lparr>eng := (eng w)\<lparr>
          grid_levels :=
            AList.map_entry price_level (\<lambda>info. info\<lparr>occupied := False\<rparr>) (grid_levels (eng w)),
          active_orders := AList.delete price_level (active_orders (eng w))\<rparr>\<rparr>"

text \<open>
  \<^verbatim>\<open>_handle_order_filled(price_level, order)\<close>. The exceptions, all caught at the end of
  the function, leave what was assigned before them: a price or amount that cannot be
  read, a level that is not in the table, a missing order id, a raising notifier.
\<close>

definition handle_order_filled ::
  "'x api \<Rightarrow> real \<Rightarrow> real \<Rightarrow> order_status \<Rightarrow> 'x world \<Rightarrow> 'x world" where
  "handle_order_filled a now price_level ord w =
     (case st_price ord of None \<Rightarrow> w | Some price \<Rightarrow>
      case st_filled ord of None \<Rightarrow> w | Some amount \<Rightarrow>
      case map_of (grid_levels (eng w)) price_level of None \<Rightarrow> w | Some info \<Rightarrow>
        (let total = price * amount;
             e1 = (eng w)\<lparr>trade_count := trade_count (eng w) + 1,
                          last_trade_time := now, last_trade_price := price\<rparr>;
             profit = (if side info = Sell then (price - base_price (grid_state e1)) * amount else 0);
             e2 = (if side info = Sell then e1\<lparr>total_profit := total_profit e1 + profit\<rparr> else e1);
             w1 = w\<lparr>eng := e2\<rparr>
         in case st_id ord of None \<Rightarrow> w1 | Some oid \<Rightarrow>
              (let w2 = w1\<lparr>dm := save_trade_dm
                           \<lparr>tr_timestamp = now, tr_side = side info, tr_price = price,
                            tr_amount = amount, tr_total = total, tr_profit = profit,
                            tr_order_id = oid, tr_grid_level = level info\<rparr> (dm w1)\<rparr>
               in case notifier a of
                    None \<Rightarrow> release_grid_level price_level w2
                  | Some notify \<Rightarrow>
                      (case call_notify notify (TradeExecution (side info) price amount total profit) w2 of
                         (True, w3) \<Rightarrow> release_grid_level price_level w3
                       | (False, w3) \<Rightarrow> w3))))"

text \<open>
  \<^verbatim>\<open>_check_order_status\<close>: the loop runs over a copy of \<^verbatim>\<open>active_orders\<close>; a raising
  \<^verbatim>\<open>get_order_status\<close> ends it.
\<close>

fun order_status_loop ::
  "'x api \<Rightarrow> real \<Rightarrow> (real \<times> order option) list \<Rightarrow> 'x world \<Rightarrow> 'x world" where
  "order_status_loop a now [] w = w"
| "order_status_loop a now ((price_level, None) # rest) w = order_status_loop a now rest w"
| "order_status_loop a now ((price_level, Some ord) # rest) w =
     (case call_get_order_status a (order_id ord) w of
        (None, w1) \<Rightarrow> w1
      | (Some status, w1) \<Rightarrow>
          if st_status status = ''closed''
          then order_status_loop a now rest (handle_order_filled a now price_level status w1)
          else if st_status status = ''canceled''
          then order_status_loop a now rest (release_grid_level price_level w1)
          else order_status_loop a now rest w1)"

definition check_order_status :: "'x api \<Rightarrow> real \<Rightarrow> 'x world \<Rightarrow> 'x world" where
  "check_order_status a now w = order_status_loop a now (active_orders (eng w)) w"

text \<open>
  \<^verbatim>\<open>_check_grid_signals\<close>: the loop over the levels, then the order statuses; an exception
  in the loop skips the rest of the function.
\<close>

definition check_grid_signals :: "'x api \<Rightarrow> real \<Rightarrow> 'x world \<Rightarrow> 'x world" where
  "check_grid_signals a current_time w =
     (case grid_signal_loop a current_time (map fst (grid_levels (eng w))) w of
        Inl w1 \<Rightarrow> w1
      | Inr w1 \<Rightarrow> check_order_status a current_time w1)"

subsection \<open>Shutdown and persistence\<close>

text \<open>
  \<^verbatim>\<open>_cancel_all_orders\<close>: one \<^verbatim>\<open>try\<close> around the whole loop over a copy of
  \<^verbatim>\<open>active_orders\<close>; a raising \<^verbatim>\<open>cancel_order\<close> ends the loop.
\<close>

fun cancel_orders_loop :: "'x api \<Rightarrow> (real \<times> order option) list \<Rightarrow> 'x world \<Rightarrow> 'x world" where
  "cancel_orders_loop a [] w = w"
| "cancel_orders_loop a ((price_level, None) # rest) w = cancel_orders_loop a rest w"
| "cancel_orders_loop a ((price_level, Some ord) # rest) w =
     (case call_cancel_order a (order_id ord) w of
        (False, w1) \<Rightarrow> w1
      | (True, w1) \<Rightarrow> cancel_orders_loop a rest (release_grid_level price_level w1))"

definition cancel_all_orders :: "'x api \<Rightarrow> 'x world \<Rightarrow> 'x world" where
  "cancel_all_orders a w = cancel_orders_loop a (active_orders (eng w)) w"

text \<open>\<^verbatim>\<open>_save_state\<close>\<close>

definition save_state :: "real \<Rightarrow> 'x world \<Rightarrow> 'x world" where
  "save_state now w =
     (let e = eng w; gs = grid_state e
      in w\<lparr>dm := save_state_dm
           \<lparr>s_base_price = Some (base_price gs),
            s_current_price = Some (current_price gs),
            s_grid_size = Some (grid_size gs),
            s_last_adjustment_time = Some (last_adjustment_time gs),
            s_volatility = Some (volatility gs),
            s_total_profit = Some (total_profit e),
            s_trade_count = Some (trade_count e),
            s_last_save_time = Some now\<rparr> (dm w)\<rparr>)"

text \<open>The test \<^verbatim>\<open>if state:\<close> of \<^verbatim>\<open>_load_state\<close> fails on a dictionary without keys.\<close>

definition empty_state :: "saved_state \<Rightarrow> bool" where
  "empty_state s \<longleftrightarrow>
     s_base_price s = None \<and> s_current_price s = None \<and> s_grid_size s = None \<and>
     s_last_adjustment_time s = None \<and> s_volatility s = None \<and> s_total_profit s = None \<and>
     s_trade_count s = None \<and> s_last_save_time s = None"

definition get_or :: "'v option \<Rightarrow> 'v \<Rightarrow> 'v" where
  "get_or field dflt = (case field of None \<Rightarrow> dflt | Some v \<Rightarrow> v)"

text \<open>\<^verbatim>\<open>_load_state\<close>\<close>

definition load_state :: "'x world \<Rightarrow> 'x world" where
  "load_state w =
     (case load_state_dm (dm w) of
        None \<Rightarrow> w
      | Some state \<Rightarrow>
          if empty_state state then w
          else
            (let e = eng w;
                 saved_base_price = get_or (s_base_price state) 0;
                 configured = initial_base_price (settings e);
                 base = (if configured > 0
                         then (if \<bar>configured - saved_base_price\<bar> > 1.0 then configured
                               else saved_base_price)
                         else saved_base_price)
             in w\<lparr>eng := e\<lparr>
                  grid_state := (grid_state e)\<lparr>
                    base_price := base,
                    grid_size := get_or (s_grid_size state) (initial_size (settings e)),
                    last_adjustment_time := get_or (s_last_adjustment_time state) 0\<rparr>,
                  total_profit := get_or (s_total_profit state) 0,
                  trade_count := get_or (s_trade_count state) 0\<rparr>\<rparr>))"

text \<open>
  \<^verbatim>\<open>stop\<close>: the flag, the cancellation, the saved state, the status notification. The
  other components it closes hold no state of the engine. \<open>Inl\<close> is a notifier that
  raises, after everything else is done.
\<close>

definition stop :: "'x api \<Rightarrow> real \<Rightarrow> 'x world \<Rightarrow> 'x world + 'x world" where
  "stop a now w =
     (let w1 = w\<lparr>eng := (eng w)\<lparr>is_running := False\<rparr>\<rparr>;
          w2 = cancel_all_orders a w1;
          w3 = save_state now w2
      in case notifier a of
           None \<Rightarrow> Inr w3
         | Some notify \<Rightarrow>
             (case call_notify notify (SystemStatus ''STOPPED'') w3 of
                (True, w4) \<Rightarrow> Inr w4
              | (False, w4) \<Rightarrow> Inl w4))"

section \<open>The risk manager (risk/risk\_manager.py)\<close>

subsection \<open>State\<close>

text \<open>\<^verbatim>\<open>settings.risk\<close> (the class \<^verbatim>\<open>RiskSettings\<close>), and the base asset of \<^verbatim>\<open>settings.trading.symbol\<close>.\<close>

record risk_settings =
  max_drawdown :: real
  daily_loss_limit :: real
  max_position_ratio :: real
  min_position_ratio :: real
  risk_check_interval :: real
  symbol_base :: string

text \<open>The dataclass \<^verbatim>\<open>RiskAlert\<close>, its formatted message apart.\<close>

record risk_alert =
  alert_type :: string
  severity :: string
  current_value :: real
  threshold :: real
  timestamp :: real
  action_required :: bool

text \<open>The calls the risk manager makes that act on the outside.\<close>

datatype risk_call =
  CancelAllOrders
  | NotifyError string
  | NotifyRiskAlert string

text \<open>
  The fields of \<^verbatim>\<open>RiskManager\<close>; \<open>has_notifier\<close> says whether \<^verbatim>\<open>self.notifier\<close> is set, and
  \<open>calls_made\<close> is the history of the calls above.
\<close>

record risk_manager =
  risk :: risk_settings
  has_notifier :: bool
  active_alerts :: "risk_alert list"
  risk_history :: "risk_alert list"
  emergency_stop_triggered :: bool
  peak_portfolio_value :: real
  current_drawdown :: real
  daily_start_value :: real
  daily_pnl :: real
  last_daily_reset :: real
  last_risk_check :: real
  current_position_ratio :: real
  calls_made :: "risk_call list"

text \<open>\<^verbatim>\<open>RiskManager.__init__\<close>, and the defaults of \<^verbatim>\<open>RiskSettings\<close>.\<close>

definition new_risk_manager :: "risk_settings \<Rightarrow> bool \<Rightarrow> risk_manager" where
  "new_risk_manager rs notifier_given =
     \<lparr>risk = rs, has_notifier = notifier_given, active_alerts = [], risk_history = [],
      emergency_stop_triggered = False, peak_portfolio_value = 0, current_drawdown = 0,
      daily_start_value = 0, daily_pnl = 0, last_daily_reset = 0, last_risk_check = 0,
      current_position_ratio = 0, calls_made = []\<rparr>"

definition default_risk_settings :: "string \<Rightarrow> risk_settings" where
  "default_risk_settings base =
     \<lparr>max_drawdown = - 0.15, daily_loss_limit = - 0.05, max_position_ratio = 0.9,
      min_position_ratio = 0.1, risk_check_interval = 300, symbol_base = base\<rparr>"

text \<open>
  What the outside answers during one call of \<^verbatim>\<open>check_all_risks\<close>: the clock, and the
  result of each exchange and notifier call, \<open>None\<close> or \<open>False\<close> when the call raises.
  \<open>position\<close> is the dictionary of \<^verbatim>\<open>get_position\<close>, \<open>ticker_last\<close> the price of
  \<^verbatim>\<open>get_ticker\<close>.
\<close>

record risk_env =
  now :: real
  account_value :: "real option"
  snapshot_balance :: "balance option"
  futures_mode :: bool
  position :: "(string \<rightharpoonup> real) option"
  ticker_last :: "real option"
  cancel_all_ok :: bool
  notify_risk_alert_ok :: "risk_alert \<Rightarrow> bool"

subsection \<open>Portfolio metrics\<close>

text \<open>
  \<^verbatim>\<open>_update_portfolio_metrics\<close>, given the result of \<^verbatim>\<open>get_account_value\<close>. \<open>None\<close> is the
  exception the function raises again, before any assignment.
\<close>

definition update_portfolio_metrics :: "risk_env \<Rightarrow> risk_manager \<Rightarrow> risk_manager option" where
  "update_portfolio_metrics env rm =
     (case account_value env of
        None \<Rightarrow> None
      | Some value_now \<Rightarrow>
          (let rm1 = (if value_now > peak_portfolio_value rm
                      then rm\<lparr>peak_portfolio_value := value_now\<rparr> else rm);
               rm2 = (if peak_portfolio_value rm1 > 0
                      then rm1\<lparr>current_drawdown :=
                             (value_now - peak_portfolio_value rm1) / peak_portfolio_value rm1\<rparr>
                      else rm1);
               rm3 = (if daily_start_value rm2 > 0
                      then rm2\<lparr>daily_pnl :=
                             (value_now - daily_start_value rm2) / daily_start_value rm2\<rparr>
                      else rm2)
           in Some (if now env - last_daily_reset rm3 > 86400
                    then rm3\<lparr>daily_start_value := value_now, daily_pnl := 0,
                             last_daily_reset := now env\<rparr>
                    else rm3)))"

subsection \<open>The four checks\<close>

text \<open>
  The first half of \<^verbatim>\<open>_check_position_limits\<close>: position value and total balance, for a
  futures or a spot account. \<open>None\<close> is an exchange call that raises.
\<close>

definition position_snapshot :: "risk_env \<Rightarrow> risk_manager \<Rightarrow> (real \<times> real) option" where
  "position_snapshot env rm =
     (case snapshot_balance env of
        None \<Rightarrow> None
      | Some bal \<Rightarrow>
          if futures_mode env
          then (case position env of
                  None \<Rightarrow> None
                | Some pos \<Rightarrow>
                    Some (\<bar>dict_get pos ''notional'' 0\<bar>, dict_get (bal_total bal) ''USDT'' 0))
          else (let base_balance = dict_get (bal_total bal) (symbol_base (risk rm)) 0;
                    usdt_balance = dict_get (bal_total bal) ''USDT'' 0
                in case ticker_last env of
                     None \<Rightarrow> None
                   | Some price \<Rightarrow>
                       (let position_value = base_balance * price
                        in Some (position_value, position_value + usdt_balance))))"

text \<open>The alerts of \<^verbatim>\<open>_check_position_limits\<close> for a ratio.\<close>

definition position_ratio_alerts :: "risk_settings \<Rightarrow> real \<Rightarrow> real \<Rightarrow> risk_alert list" where
  "position_ratio_alerts rs t ratio =
     (if ratio > max_position_ratio rs
      then [\<lparr>alert_type = ''POSITION_LIMIT_EXCEEDED'', severity = ''high'', current_value = ratio,
             threshold = max_position_ratio rs, timestamp = t, action_required = True\<rparr>]
      else []) @
     (if ratio < min_position_ratio rs
      then [\<lparr>alert_type = ''POSITION_BELOW_MINIMUM'', severity = ''medium'', current_value = ratio,
             threshold = min_position_ratio rs, timestamp = t, action_required = False\<rparr>]
      else [])"

text \<open>\<^verbatim>\<open>_check_position_limits\<close>: an exception leaves the ratio as it was, with no alert.\<close>

definition check_position_limits ::
  "risk_env \<Rightarrow> risk_manager \<Rightarrow> risk_alert list \<times> risk_manager" where
  "check_position_limits env rm =
     (case position_snapshot env rm of
        None \<Rightarrow> ([], rm)
      | Some (position_value, total_balance) \<Rightarrow>
          (let ratio = safe_divide position_value total_balance 0
           in (position_ratio_alerts (risk rm) (now env) ratio, rm\<lparr>current_position_ratio := ratio\<rparr>)))"

text \<open>\<^verbatim>\<open>_check_drawdown_limits\<close>\<close>

definition check_drawdown_limits :: "risk_env \<Rightarrow> risk_manager \<Rightarrow> risk_alert list" where
  "check_drawdown_limits env rm =
     (if current_drawdown rm < max_drawdown (risk rm)
      then [\<lparr>alert_type = ''MAX_DRAWDOWN_EXCEEDED'',
             severity = (if current_drawdown rm < max_drawdown (risk rm) * 1.5
                         then ''critical'' else ''high''),
             current_value = current_drawdown rm, threshold = max_drawdown (risk rm),
             timestamp = now env, action_required = True\<rparr>]
      else [])"

text \<open>\<^verbatim>\<open>_check_daily_limits\<close>\<close>

definition check_daily_limits :: "risk_env \<Rightarrow> risk_manager \<Rightarrow> risk_alert list" where
  "check_daily_limits env rm =
     (if daily_pnl rm < daily_loss_limit (risk rm)
      then [\<lparr>alert_type = ''DAILY_LOSS_LIMIT_EXCEEDED'',
             severity = (if daily_pnl rm < daily_loss_limit (risk rm) * 1.5
                         then ''critical'' else ''high''),
             current_value = daily_pnl rm, threshold = daily_loss_limit (risk rm),
             timestamp = now env, action_required = True\<rparr>]
      else [])"

subsection \<open>Emergency stop\<close>

text \<open>
  \<^verbatim>\<open>_trigger_emergency_stop(reason)\<close>: the flag first, then \<^verbatim>\<open>cancel_all_orders\<close>, then
  the notification. A raising \<^verbatim>\<open>cancel_all_orders\<close> goes to the handler and skips the
  notification; a raising \<^verbatim>\<open>notify_error\<close> goes to the same handler with nothing left
  to skip.
\<close>

definition trigger_emergency_stop :: "risk_env \<Rightarrow> string \<Rightarrow> risk_manager \<Rightarrow> risk_manager" where
  "trigger_emergency_stop env reason rm =
     (let rm1 = rm\<lparr>emergency_stop_triggered := True,
                    calls_made := calls_made rm @ [CancelAllOrders]\<rparr>
      in if \<not> cancel_all_ok env then rm1
         else if has_notifier rm1 then rm1\<lparr>calls_made := calls_made rm1 @ [NotifyError reason]\<rparr>
         else rm1)"

text \<open>The list \<^verbatim>\<open>emergency_conditions\<close> of \<^verbatim>\<open>_check_emergency_conditions\<close>.\<close>

definition emergency_conditions :: "risk_manager \<Rightarrow> (bool \<times> string) list" where
  "emergency_conditions rm =
     [(current_drawdown rm < max_drawdown (risk rm) * 2, ''EXTREME_DRAWDOWN''),
      (daily_pnl rm < daily_loss_limit (risk rm) * 2, ''EXTREME_DAILY_LOSS''),
      (current_position_ratio rm > 0.95, ''EXTREME_POSITION_RATIO'')]"

fun emergency_loop ::
  "risk_env \<Rightarrow> (bool \<times> string) list \<Rightarrow> risk_alert list \<Rightarrow> risk_manager
     \<Rightarrow> risk_alert list \<times> risk_manager" where
  "emergency_loop env [] alerts rm = (alerts, rm)"
| "emergency_loop env ((condition, atype) # rest) alerts rm =
     (if condition
      then emergency_loop env rest
             (alerts @ [\<lparr>alert_type = atype, severity = ''critical'', current_value = 0,
                         threshold = 0, timestamp = now env, action_required = True\<rparr>])
             (if \<not> emergency_stop_triggered rm then trigger_emergency_stop env atype rm else rm)
      else emergency_loop env rest alerts rm)"

text \<open>\<^verbatim>\<open>_check_emergency_conditions\<close>\<close>

definition check_emergency_conditions ::
  "risk_env \<Rightarrow> risk_manager \<Rightarrow> risk_alert list \<times> risk_manager" where
  "check_emergency_conditions env rm = emergency_loop env (emergency_conditions rm) [] rm"

text \<open>\<^verbatim>\<open>is_emergency_stop_active\<close> and \<^verbatim>\<open>reset_emergency_stop\<close>\<close>

definition is_emergency_stop_active :: "risk_manager \<Rightarrow> bool" where
  "is_emergency_stop_active rm = emergency_stop_triggered rm"

definition reset_emergency_stop :: "risk_manager \<Rightarrow> risk_manager" where
  "reset_emergency_stop rm = rm\<lparr>emergency_stop_triggered := False\<rparr>"

subsection \<open>The evaluation cycle\<close>

text \<open>
  \<^verbatim>\<open>_process_alerts\<close> looks the log method up by the name of the severity ('error' for
  'critical'); the logger class has the methods below and no other, so the lookup raises
  for any other severity. \<open>Inl\<close> is an exception, from the lookup or from the notifier.
\<close>

definition logger_methods :: "string list" where
  "logger_methods = [''debug'', ''info'', ''warning'', ''error'', ''critical'', ''exception'']"

fun process_alerts_loop ::
  "risk_env \<Rightarrow> risk_alert list \<Rightarrow> risk_manager \<Rightarrow> risk_manager + risk_manager" where
  "process_alerts_loop env [] rm = Inr rm"
| "process_alerts_loop env (alert # rest) rm =
     (let rm1 = rm\<lparr>active_alerts := active_alerts rm @ [alert],
                    risk_history := risk_history rm @ [alert]\<rparr>;
          method = (if severity alert \<noteq> ''critical'' then severity alert else ''error'')
      in if method \<notin> set logger_methods then Inl rm1
         else if has_notifier rm1
         then (let rm2 = rm1\<lparr>calls_made := calls_made rm1 @ [NotifyRiskAlert (alert_type alert)]\<rparr>
               in if notify_risk_alert_ok env alert then process_alerts_loop env rest rm2
                  else Inl rm2)
         else process_alerts_loop env rest rm1)"

definition process_alerts :: "risk_env \<Rightarrow> risk_alert list \<Rightarrow> risk_manager \<Rightarrow> risk_manager + risk_manager" where
  "process_alerts env alerts rm =
     (case process_alerts_loop env alerts rm of
        Inl rm1 \<Rightarrow> Inl rm1
      | Inr rm1 \<Rightarrow>
          Inr (if length (risk_history rm1) > 100
               then rm1\<lparr>risk_history := drop (length (risk_history rm1) - 100) (risk_history rm1)\<rparr>
               else rm1))"

definition system_error_alert :: "risk_env \<Rightarrow> risk_alert" where
  "system_error_alert env =
     \<lparr>alert_type = ''SYSTEM_ERROR'', severity = ''high'', current_value = 0, threshold = 0,
      timestamp = now env, action_required = True\<rparr>"

text \<open>\<^verbatim>\<open>check_all_risks\<close>: the alerts it returns, and the risk manager afterwards.\<close>

definition check_all_risks :: "risk_env \<Rightarrow> risk_manager \<Rightarrow> risk_alert list \<times> risk_manager" where
  "check_all_risks env rm =
     (if now env - last_risk_check rm < risk_check_interval (risk rm) then ([], rm)
      else (case update_portfolio_metrics env rm of
              None \<Rightarrow> ([system_error_alert env], rm)
            | Some rm1 \<Rightarrow>
                (case check_position_limits env rm1 of
                   (position_alerts, rm2) \<Rightarrow>
                     (let drawdown_alerts = check_drawdown_limits env rm2;
                          daily_alerts = check_daily_limits env rm2
                      in case check_emergency_conditions env rm2 of
                           (emergency_alerts, rm3) \<Rightarrow>
                             (let alerts = position_alerts @ drawdown_alerts @ daily_alerts
                                           @ emergency_alerts
                              in case process_alerts env alerts rm3 of
                                   Inl rm4 \<Rightarrow> (alerts @ [system_error_alert env], rm4)
                                 | Inr rm4 \<Rightarrow> (alerts, rm4\<lparr>last_risk_check := now env\<rparr>))))))"

text \<open>Evaluation cycles one after the other, with no reset between them.\<close>

definition run_cycles :: "risk_env list \<Rightarrow> risk_manager \<Rightarrow> risk_manager" where
  "run_cycles envs rm = foldl (\<lambda>r env. snd (check_all_risks env r)) rm envs"

text \<open>Updates of the portfolio metrics one after the other; a failed update changes nothing.\<close>

definition run_updates :: "risk_env list \<Rightarrow> risk_manager \<Rightarrow> risk_manager" where
  "run_updates envs rm =
     foldl (\<lambda>r env. case update_portfolio_metrics env r of None \<Rightarrow> r | Some r' \<Rightarrow> r') rm envs"

text \<open>The calls of \<^verbatim>\<open>_trigger_emergency_stop\<close> in the history of a risk manager.\<close>

fun is_notify_error :: "risk_call \<Rightarrow> bool" where
  "is_notify_error (NotifyError _) = True"
| "is_notify_error _ = False"

definition cancel_all_count :: "risk_manager \<Rightarrow> nat" where
  "cancel_all_count rm = length (filter (\<lambda>c. c = CancelAllOrders) (calls_made rm))"

definition notify_error_count :: "risk_manager \<Rightarrow> nat" where
  "notify_error_count rm = length (filter is_notify_error (calls_made rm))"

text \<open>
  What one step of the risk manager may do to the emergency stop, used in the proofs:
  either the flag and the two counts stay, or the flag goes up with one
  \<^verbatim>\<open>cancel_all_orders\<close> and, when that returns and a notifier is set, one \<^verbatim>\<open>notify_error\<close>.
\<close>

definition stop_step :: "risk_env \<Rightarrow> risk_manager \<Rightarrow> risk_manager \<Rightarrow> bool" where
  "stop_step env rm rm' \<longleftrightarrow>
     has_notifier rm' = has_notifier rm \<and>
     (if emergency_stop_triggered rm = emergency_stop_triggered rm'
      then cancel_all_count rm' = cancel_all_count rm \<and>
           notify_error_count rm' = notify_error_count rm
      else emergency_stop_triggered rm' \<and>
           cancel_all_count rm' = cancel_all_count rm + 1 \<and>
           notify_error_count rm'
             = notify_error_count rm + (if has_notifier rm \<and> cancel_all_ok env then 1 else 0))"

section \<open>Example states\<close>

text \<open>
  An engine for BTC/USDT at base price 100000 with grid size 2, the price at 100500, its
  level table built by \<open>initialize_grid_levels\<close>.
\<close>

definition example_settings :: engine_settings where
  "example_settings =
     \<lparr>base_asset = ''BTC'', min_trade_amount = 20, initial_base_price = 0, initial_size = 2\<rparr>"

definition example_new_engine :: engine where
  "example_new_engine =
     (new_engine example_settings)\<lparr>grid_state :=
        new_grid_state\<lparr>base_price := 100000, current_price := 100500, grid_size := 2\<rparr>\<rparr>"

definition example_engine :: engine where
  "example_engine = initialize_grid_levels example_new_engine"


text \<open>
  An exchange holding one BTC and no USDT. Its state is the list of the order ids it
  will hand out. It accepts every order, reports every order open, and fails to cancel
  the order \<open>B\<close>. There is no notifier.
\<close>

definition example_balance :: balance where
  "example_balance = \<lparr>bal_free = [''BTC'' \<mapsto> 1], bal_total = [''BTC'' \<mapsto> 1]\<rparr>"

definition example_api :: "string list api" where
  "example_api =
     \<lparr>get_balance = (\<lambda>x. (Some example_balance, x)),
      adjust_amount_precision = (\<lambda>amount. amount),
      create_limit_order = (\<lambda>sd amount price x.
         case x of [] \<Rightarrow> (None, []) | i # rest \<Rightarrow> (Some (Some \<lparr>order_id = i\<rparr>), rest)),
      cancel_order = (\<lambda>oid x. (oid \<noteq> ''B'', x)),
      get_order_status = (\<lambda>oid x.
         (Some \<lparr>st_status = ''open'', st_price = None, st_filled = None, st_id = Some oid\<rparr>, x)),
      notifier = None\<rparr>"

definition example_world :: "string list world" where
  "example_world =
     \<lparr>eng = example_engine, dm = \<lparr>stored_state = None, trades = []\<rparr>,
      ex = [''A'', ''B'', ''C'', ''D'', ''E''], calls = []\<rparr>"

text \<open>The status of a sell order filled at 101000 for 0.01, and the engine after it.\<close>

definition example_fill :: order_status where
  "example_fill =
     \<lparr>st_status = ''closed'', st_price = Some 101000, st_filled = Some 0.01, st_id = Some ''A''\<rparr>"

definition example_filled_world :: "string list world" where
  "example_filled_world = handle_order_filled example_api 1000 102000 example_fill example_world"

text \<open>A new engine that finds the state saved by the one above.\<close>

definition example_restarted_world :: "string list world" where
  "example_restarted_world =
     \<lparr>eng = new_engine example_settings, dm = dm (save_state 2000 example_filled_world),
      ex = [], calls = []\<rparr>"

text \<open>
  A risk manager with the default settings and a notifier; an answer of the outside at
  time \<open>t\<close> with account value \<open>v\<close>, for a spot account that holds nothing.
\<close>

definition example_rm :: risk_manager where
  "example_rm = new_risk_manager (default_risk_settings ''BTC'') True"

definition example_env :: "real \<Rightarrow> real \<Rightarrow> risk_env" where
  "example_env t v =
     \<lparr>now = t, account_value = Some v,
      snapshot_balance = Some \<lparr>bal_free = Map.empty, bal_total = Map.empty\<rparr>,
      futures_mode = False, position = None, ticker_last = Some 100000, cancel_all_ok = True,
      notify_risk_alert_ok = (\<lambda>_. True)\<rparr>"

text \<open>
  The same account holding one BTC and no USDT, which is a position ratio of 1;
  \<open>cancel_ok\<close> says whether \<^verbatim>\<open>cancel_all_orders\<close> returns.
\<close>

definition example_env_all_in :: "real \<Rightarrow> bool \<Rightarrow> risk_env" where
  "example_env_all_in t cancel_ok =
     (example_env t 100000)\<lparr>
        snapshot_balance := Some \<lparr>bal_free = [''BTC'' \<mapsto> 1], bal_total = [''BTC'' \<mapsto> 1]\<rparr>,
        cancel_all_ok := cancel_ok\<rparr>"

text \<open>The example engine after one call of \<open>check_grid_signals\<close>.\<close>

definition example_ticked_world :: "string list world" where
  "example_ticked_world = check_grid_signals example_api 1000 example_world"

text \<open>The ticked engine after \<open>stop\<close>, whether or not the last notification raised.\<close>

definition example_stopped_world :: "string list world" where
  "example_stopped_world =
     (case stop example_api 2000 example_ticked_world of Inl w \<Rightarrow> w | Inr w \<Rightarrow> w)"

section \<open>Properties of the risk manager\<close>

subsection \<open>Daily loss\<close>



subsection \<open>Position ratio with an empty account\<close>

text \<open>
  Claim C10. Whenever the total balance computed by \<^verbatim>\<open>_check_position_limits\<close> is zero
  (for a futures or a spot account), the check raises nothing: \<open>safe_divide\<close> gives its
  default, the position ratio becomes 0, and the alerts are those of the two threshold
  comparisons made with the ratio 0.
\<close>

theorem position_ratio_zero_balance:
  assumes "position_snapshot env rm = Some (position_value, 0)"
  shows "safe_divide position_value 0 0 = 0 \<and>
         current_position_ratio (snd (check_position_limits env rm)) = 0 \<and>
         fst (check_position_limits env rm) = position_ratio_alerts (risk rm) (now env) 0"
  using assms by (simp add: check_position_limits_def safe_divide_def)

theorem position_ratio_zero_balance_witness:
  "position_snapshot (example_env 1000 0) example_rm = Some (0, 0) \<and>
   current_position_ratio (snd (check_position_limits (example_env 1000 0) example_rm)) = 0 \<and>
   fst (check_position_limits (example_env 1000 0) example_rm)
     = [\<lparr>alert_type = ''POSITION_BELOW_MINIMUM'', severity = ''medium'', current_value = 0,
         threshold = 0.1, timestamp = 1000, action_required = False\<rparr>]"
proof -
  have s: "position_snapshot (example_env 1000 0) example_rm = Some (0, 0)"
    by (simp add: position_snapshot_def example_env_def example_rm_def dict_get_def
        new_risk_manager_def default_risk_settings_def)
  show ?thesis
    using s position_ratio_zero_balance [OF s]
    by (simp add: position_ratio_alerts_def example_env_def example_rm_def
        new_risk_manager_def default_risk_settings_def)
qed

subsection \<open>Peak and drawdown\<close>

text \<open>The definitions that evaluate a risk cycle on the example states.\<close>

lemmas risk_eval = run_cycles_def check_all_risks_def update_portfolio_metrics_def
  check_position_limits_def position_snapshot_def position_ratio_alerts_def safe_divide_def
  dict_get_def check_drawdown_limits_def check_daily_limits_def check_emergency_conditions_def
  emergency_conditions_def trigger_emergency_stop_def process_alerts_def logger_methods_def
  example_rm_def example_env_def example_env_all_in_def new_risk_manager_def
  default_risk_settings_def Let_def run_updates_def













subsection \<open>Emergency stop\<close>

lemma is_notify_error_simps2 [simp]: "\<not> is_notify_error CancelAllOrders" "\<not> is_notify_error (NotifyRiskAlert x)"
  by simp_all

lemma trigger_effect:
  "emergency_stop_triggered (trigger_emergency_stop env reason rm) \<and>
   has_notifier (trigger_emergency_stop env reason rm) = has_notifier rm \<and>
   cancel_all_count (trigger_emergency_stop env reason rm) = cancel_all_count rm + 1 \<and>
   notify_error_count (trigger_emergency_stop env reason rm)
     = notify_error_count rm + (if has_notifier rm \<and> cancel_all_ok env then 1 else 0)"
  by (simp add: trigger_emergency_stop_def Let_def cancel_all_count_def notify_error_count_def)

lemma stop_step_refl: "stop_step env rm rm"
  by (simp add: stop_step_def)

lemma stop_step_same:
  "has_notifier rm' = has_notifier rm \<Longrightarrow>
   emergency_stop_triggered rm' = emergency_stop_triggered rm \<Longrightarrow>
   cancel_all_count rm' = cancel_all_count rm \<Longrightarrow>
   notify_error_count rm' = notify_error_count rm \<Longrightarrow> stop_step env rm0 rm \<Longrightarrow>
   stop_step env rm0 rm'"
  by (auto simp: stop_step_def split: if_splits)

lemma emergency_loop_step:
  "stop_step env rm0 rm \<Longrightarrow> stop_step env rm0 (snd (emergency_loop env conds alerts rm))"
proof (induction conds arbitrary: alerts rm)
  case Nil
  then show ?case by simp
next
  case (Cons c conds)
  obtain condition atype where c: "c = (condition, atype)" by (cases c)
  show ?case
  proof (cases "condition \<and> \<not> emergency_stop_triggered rm")
    case True
    have "stop_step env rm0 (trigger_emergency_stop env atype rm)"
      using Cons.prems True trigger_effect [of env atype rm]
      by (auto simp: stop_step_def split: if_splits)
    from Cons.IH [OF this] show ?thesis using c True by simp
  next
    case False
    then show ?thesis using c Cons.IH [OF Cons.prems] by auto
  qed
qed

lemma emergency_loop_sticky:
  "emergency_stop_triggered rm \<Longrightarrow> emergency_stop_triggered (snd (emergency_loop env conds alerts rm))"
  by (induction conds arbitrary: alerts rm) auto

lemma process_alerts_loop_keeps:
  "process_alerts_loop env alerts rm = Inl rm' \<or> process_alerts_loop env alerts rm = Inr rm' \<Longrightarrow>
   has_notifier rm' = has_notifier rm \<and>
   emergency_stop_triggered rm' = emergency_stop_triggered rm \<and>
   cancel_all_count rm' = cancel_all_count rm \<and>
   notify_error_count rm' = notify_error_count rm"
proof (induction alerts arbitrary: rm)
  case Nil
  then show ?case by auto
next
  case (Cons alert alerts)
  let ?rm1 = "rm\<lparr>active_alerts := active_alerts rm @ [alert],
                    risk_history := risk_history rm @ [alert]\<rparr>"
  let ?rm2 = "?rm1\<lparr>calls_made := calls_made ?rm1 @ [NotifyRiskAlert (alert_type alert)]\<rparr>"
  have k1: "has_notifier ?rm1 = has_notifier rm \<and>
   emergency_stop_triggered ?rm1 = emergency_stop_triggered rm \<and>
   cancel_all_count ?rm1 = cancel_all_count rm \<and>
   notify_error_count ?rm1 = notify_error_count rm"
    by (simp add: cancel_all_count_def notify_error_count_def)
  have k2: "has_notifier ?rm2 = has_notifier rm \<and>
   emergency_stop_triggered ?rm2 = emergency_stop_triggered rm \<and>
   cancel_all_count ?rm2 = cancel_all_count rm \<and>
   notify_error_count ?rm2 = notify_error_count rm"
    by (simp add: cancel_all_count_def notify_error_count_def)
  consider (stop1) "rm' = ?rm1" | (stop2) "rm' = ?rm2"
    | (go1) "process_alerts_loop env alerts ?rm1 = Inl rm' \<or> process_alerts_loop env alerts ?rm1 = Inr rm'"
    | (go2) "process_alerts_loop env alerts ?rm2 = Inl rm' \<or> process_alerts_loop env alerts ?rm2 = Inr rm'"
    using Cons.prems by (auto simp: Let_def split: if_splits)
  then show ?case
  proof cases
    case stop1 then show ?thesis using k1 by simp
  next
    case stop2 then show ?thesis using k2 by simp
  next
    case go1 from Cons.IH [OF this] show ?thesis using k1 by simp
  next
    case go2 from Cons.IH [OF this] show ?thesis using k2 by simp
  qed
qed

lemma process_alerts_keeps:
  assumes "process_alerts env alerts rm = Inl rm' \<or> process_alerts env alerts rm = Inr rm'"
  shows "has_notifier rm' = has_notifier rm \<and>
   emergency_stop_triggered rm' = emergency_stop_triggered rm \<and>
   cancel_all_count rm' = cancel_all_count rm \<and>
   notify_error_count rm' = notify_error_count rm"
proof (cases "process_alerts_loop env alerts rm")
  case (Inl r)
  then have "rm' = r" using assms by (simp add: process_alerts_def)
  then show ?thesis using process_alerts_loop_keeps [of env alerts rm r] Inl by simp
next
  case (Inr r)
  then have "rm' = r \<or> rm' = r\<lparr>risk_history := drop (length (risk_history r) - 100) (risk_history r)\<rparr>"
    using assms by (auto simp: process_alerts_def split: if_splits)
  then show ?thesis using process_alerts_loop_keeps [of env alerts rm r] Inr
    by (auto simp: cancel_all_count_def notify_error_count_def)
qed

lemma update_keeps:
  "update_portfolio_metrics env rm = Some rm' \<Longrightarrow>
   has_notifier rm' = has_notifier rm \<and>
   emergency_stop_triggered rm' = emergency_stop_triggered rm \<and>
   cancel_all_count rm' = cancel_all_count rm \<and>
   notify_error_count rm' = notify_error_count rm"
  by (auto simp: update_portfolio_metrics_def Let_def cancel_all_count_def notify_error_count_def
      split: option.splits if_splits)

lemma position_keeps:
  "check_position_limits env rm = (alerts, rm') \<Longrightarrow>
   has_notifier rm' = has_notifier rm \<and>
   emergency_stop_triggered rm' = emergency_stop_triggered rm \<and>
   cancel_all_count rm' = cancel_all_count rm \<and>
   notify_error_count rm' = notify_error_count rm"
  by (auto simp: check_position_limits_def Let_def cancel_all_count_def notify_error_count_def
      split: option.splits)

lemma check_all_risks_step: "stop_step env rm (snd (check_all_risks env rm))"
proof (cases "now env - last_risk_check rm < risk_check_interval (risk rm)")
  case True
  then show ?thesis by (simp add: check_all_risks_def stop_step_refl)
next
  case due: False
  show ?thesis
  proof (cases "update_portfolio_metrics env rm")
    case None
    then show ?thesis using due by (simp add: check_all_risks_def stop_step_refl)
  next
    case (Some rm1)
    obtain pa rm2 where p: "check_position_limits env rm1 = (pa, rm2)"
      by (cases "check_position_limits env rm1")
    obtain ea rm3 where e: "check_emergency_conditions env rm2 = (ea, rm3)"
      by (cases "check_emergency_conditions env rm2")
    let ?alerts = "pa @ check_drawdown_limits env rm2 @ check_daily_limits env rm2 @ ea"
    have s2: "stop_step env rm rm2"
      using update_keeps [OF Some] position_keeps [OF p]
      by (intro stop_step_same [OF _ _ _ _ stop_step_refl]) simp_all
    have "stop_step env rm (snd (emergency_loop env (emergency_conditions rm2) [] rm2))"
      by (rule emergency_loop_step [OF s2])
    then have s3: "stop_step env rm rm3" using e by (simp add: check_emergency_conditions_def)
    show ?thesis
    proof (cases "process_alerts env ?alerts rm3")
      case (Inl rm4)
      have "stop_step env rm rm4"
        using process_alerts_keeps [of env ?alerts rm3 rm4] Inl
        by (intro stop_step_same [OF _ _ _ _ s3]) simp_all
      then show ?thesis using due Some p e Inl by (simp add: check_all_risks_def Let_def)
    next
      case (Inr rm4)
      have "stop_step env rm (rm4\<lparr>last_risk_check := now env\<rparr>)"
        using process_alerts_keeps [of env ?alerts rm3 rm4] Inr
        by (intro stop_step_same [OF _ _ _ _ s3])
           (simp_all add: cancel_all_count_def notify_error_count_def)
      then show ?thesis using due Some p e Inr by (simp add: check_all_risks_def Let_def)
    qed
  qed
qed

lemma run_cycles_snoc:
  "run_cycles (envs @ [env]) rm = snd (check_all_risks env (run_cycles envs rm))"
  by (simp add: run_cycles_def)

lemma run_cycles_invariant:
  "has_notifier (run_cycles envs rm) = has_notifier rm \<and>
   (emergency_stop_triggered rm \<longrightarrow> emergency_stop_triggered (run_cycles envs rm)) \<and>
   (emergency_stop_triggered (run_cycles envs rm) = emergency_stop_triggered rm \<longrightarrow>
      cancel_all_count (run_cycles envs rm) = cancel_all_count rm \<and>
      notify_error_count (run_cycles envs rm) = notify_error_count rm) \<and>
   (emergency_stop_triggered (run_cycles envs rm) \<noteq> emergency_stop_triggered rm \<longrightarrow>
      cancel_all_count (run_cycles envs rm) = cancel_all_count rm + 1 \<and>
      notify_error_count (run_cycles envs rm) \<le> notify_error_count rm + 1 \<and>
      (has_notifier rm \<and> (\<forall>env \<in> set envs. cancel_all_ok env) \<longrightarrow>
         notify_error_count (run_cycles envs rm) = notify_error_count rm + 1))"
proof (induction envs rule: rev_induct)
  case Nil
  then show ?case by (simp add: run_cycles_def)
next
  case (snoc env envs)
  have "stop_step env (run_cycles envs rm) (run_cycles (envs @ [env]) rm)"
    unfolding run_cycles_snoc by (rule check_all_risks_step)
  then show ?case using snoc
    by (auto simp: stop_step_def split: if_splits)
qed

text \<open>
  Claim C5, as stated, fails in its last part: with a notifier set and an exchange whose
  \<^verbatim>\<open>cancel_all_orders\<close> raises, two cycles with a position ratio of 1 set the flag and keep
  it, and the only call made is the one \<^verbatim>\<open>cancel_all_orders\<close>: the critical notification
  happens zero times in this stop episode.
\<close>

theorem emergency_stop_unnotified_counterexample:
  "has_notifier example_rm \<and>
   emergency_stop_triggered (run_cycles [example_env_all_in 1000 False] example_rm) \<and>
   emergency_stop_triggered
     (run_cycles [example_env_all_in 1000 False, example_env_all_in 2000 False] example_rm) \<and>
   calls_made
     (run_cycles [example_env_all_in 1000 False, example_env_all_in 2000 False] example_rm)
     = [CancelAllOrders] \<and>
   notify_error_count
     (run_cycles [example_env_all_in 1000 False, example_env_all_in 2000 False] example_rm) = 0"
  by (simp add: risk_eval notify_error_count_def)

text \<open>
  Claim C5, amended. Across every sequence of risk-evaluation cycles without a call of
  \<^verbatim>\<open>reset_emergency_stop\<close>: a flag that is set stays set, and no cycle that starts with
  the flag set calls \<^verbatim>\<open>cancel_all_orders\<close> or \<^verbatim>\<open>notify_error\<close> again. From a state
  with the flag clear, a sequence that ends with the flag set has called
  \<^verbatim>\<open>cancel_all_orders\<close> exactly once and \<^verbatim>\<open>notify_error\<close> at most once, and exactly once
  when a notifier is set and no \<^verbatim>\<open>cancel_all_orders\<close> raises; a sequence that ends with
  the flag clear has called neither. \<^verbatim>\<open>reset_emergency_stop\<close> clears the flag.
\<close>

theorem emergency_stop_sticky:
  "(emergency_stop_triggered rm \<longrightarrow>
      emergency_stop_triggered (run_cycles envs rm) \<and>
      cancel_all_count (run_cycles envs rm) = cancel_all_count rm \<and>
      notify_error_count (run_cycles envs rm) = notify_error_count rm) \<and>
   (\<not> emergency_stop_triggered rm \<and> emergency_stop_triggered (run_cycles envs rm) \<longrightarrow>
      cancel_all_count (run_cycles envs rm) = cancel_all_count rm + 1 \<and>
      notify_error_count (run_cycles envs rm) \<le> notify_error_count rm + 1 \<and>
      (has_notifier rm \<and> (\<forall>env \<in> set envs. cancel_all_ok env) \<longrightarrow>
         notify_error_count (run_cycles envs rm) = notify_error_count rm + 1)) \<and>
   (\<not> emergency_stop_triggered rm \<and> \<not> emergency_stop_triggered (run_cycles envs rm) \<longrightarrow>
      cancel_all_count (run_cycles envs rm) = cancel_all_count rm \<and>
      notify_error_count (run_cycles envs rm) = notify_error_count rm) \<and>
   \<not> emergency_stop_triggered (reset_emergency_stop (run_cycles envs rm))"
  using run_cycles_invariant [of envs rm] by (auto simp: reset_emergency_stop_def)

theorem emergency_stop_sticky_witness:
  "\<not> emergency_stop_triggered example_rm \<and> has_notifier example_rm \<and>
   cancel_all_ok (example_env_all_in 1000 True) \<and> cancel_all_ok (example_env_all_in 2000 True) \<and>
   emergency_stop_triggered (run_cycles [example_env_all_in 1000 True] example_rm) \<and>
   emergency_stop_triggered
     (run_cycles [example_env_all_in 1000 True, example_env_all_in 2000 True] example_rm) \<and>
   cancel_all_count
     (run_cycles [example_env_all_in 1000 True, example_env_all_in 2000 True] example_rm) = 1 \<and>
   notify_error_count
     (run_cycles [example_env_all_in 1000 True, example_env_all_in 2000 True] example_rm) = 1 \<and>
   cancel_all_count
     (run_cycles [example_env_all_in 2000 True] (run_cycles [example_env_all_in 1000 True] example_rm))
     = cancel_all_count (run_cycles [example_env_all_in 1000 True] example_rm)"
proof -
  have f: "\<not> emergency_stop_triggered example_rm" "has_notifier example_rm"
    "cancel_all_count example_rm = 0" "notify_error_count example_rm = 0"
    by (simp_all add: example_rm_def new_risk_manager_def cancel_all_count_def
        notify_error_count_def)
  have c: "\<forall>env \<in> set [example_env_all_in 1000 True, example_env_all_in 2000 True]. cancel_all_ok env"
    by (simp add: example_env_all_in_def)
  have t1: "emergency_stop_triggered (run_cycles [example_env_all_in 1000 True] example_rm)"
    by (simp add: risk_eval)
  have t2: "emergency_stop_triggered
     (run_cycles [example_env_all_in 1000 True, example_env_all_in 2000 True] example_rm)"
    by (simp add: risk_eval)
  note first = emergency_stop_sticky
    [of example_rm "[example_env_all_in 1000 True, example_env_all_in 2000 True]"]
  note again = emergency_stop_sticky
    [of "run_cycles [example_env_all_in 1000 True] example_rm" "[example_env_all_in 2000 True]"]
  from first f c t2 have
    "cancel_all_count
       (run_cycles [example_env_all_in 1000 True, example_env_all_in 2000 True] example_rm) = 1"
    "notify_error_count
       (run_cycles [example_env_all_in 1000 True, example_env_all_in 2000 True] example_rm) = 1"
    by simp_all
  moreover from again t1 have "cancel_all_count
     (run_cycles [example_env_all_in 2000 True] (run_cycles [example_env_all_in 1000 True] example_rm))
     = cancel_all_count (run_cycles [example_env_all_in 1000 True] example_rm)"
    by blast
  ultimately show ?thesis using f c t1 t2 by simp
qed

section \<open>Properties of the grid engine\<close>

subsection \<open>The level table\<close>












text \<open>The definitions that evaluate the level table of an example engine.\<close>

lemmas table_eval = initialize_grid_levels_def new_engine_def new_grid_state_def
  build_grid_levels_def add_grid_level_def grid_level_entry_def level_price_def py_round_def
  round_half_even_def Let_def





subsection \<open>Guards of the signal loop\<close>





lemma record_failed_attempt_effect [simp]:
  "grid_state (eng (record_failed_attempt t p w)) = grid_state (eng w)"
  "calls (record_failed_attempt t p w) = calls w"
  by (simp_all add: record_failed_attempt_def)

lemma mark_occupied_effect [simp]:
  "grid_state (eng (mark_occupied p ord w)) = grid_state (eng w)"
  "calls (mark_occupied p ord w) = calls w"
  by (simp_all add: mark_occupied_def)





lemma release_grid_level_calls [simp]: "calls (release_grid_level p w) = calls w"
  by (simp add: release_grid_level_def)







subsection \<open>The example engine, evaluated\<close>

lemma example_levels:
  "grid_levels example_engine =
     [(90000, \<lparr>side = Buy, level = - 5, occupied = False, last_attempt = 0\<rparr>),
      (92000, \<lparr>side = Buy, level = - 4, occupied = False, last_attempt = 0\<rparr>),
      (94000, \<lparr>side = Buy, level = - 3, occupied = False, last_attempt = 0\<rparr>),
      (96000, \<lparr>side = Buy, level = - 2, occupied = False, last_attempt = 0\<rparr>),
      (98000, \<lparr>side = Buy, level = - 1, occupied = False, last_attempt = 0\<rparr>),
      (102000, \<lparr>side = Sell, level = 1, occupied = False, last_attempt = 0\<rparr>),
      (104000, \<lparr>side = Sell, level = 2, occupied = False, last_attempt = 0\<rparr>),
      (106000, \<lparr>side = Sell, level = 3, occupied = False, last_attempt = 0\<rparr>),
      (108000, \<lparr>side = Sell, level = 4, occupied = False, last_attempt = 0\<rparr>),
      (110000, \<lparr>side = Sell, level = 5, occupied = False, last_attempt = 0\<rparr>)]"
  by (simp add: example_engine_def example_new_engine_def table_eval)

lemma example_world_eq:
  "example_world =
     \<lparr>eng = \<lparr>settings = example_settings,
        grid_state = \<lparr>base_price = 100000, current_price = 100500, grid_size = 2, upper_band = 0,
                      lower_band = 0, last_adjustment_time = 0, volatility = 0,
                      price_history = []\<rparr>,
        is_running = False, active_orders = [], grid_levels = grid_levels example_engine,
        last_trade_time = 0, last_trade_price = 0, trade_count = 0,
        failed_order_cooldown = 300, total_profit = 0\<rparr>,
      dm = \<lparr>stored_state = None, trades = []\<rparr>,
      ex = [''A'', ''B'', ''C'', ''D'', ''E''], calls = []\<rparr>"
  by (simp add: example_world_def example_engine_def example_new_engine_def
      initialize_grid_levels_def new_engine_def new_grid_state_def Let_def)

lemmas engine_eval = example_levels check_level_def
  execute_grid_order_def calculate_order_amount_def call_get_balance_def example_api_def
  example_balance_def dict_get_def example_settings_def check_min_notional_def
  call_create_limit_order_def mark_occupied_def check_order_status_def
  call_get_order_status_def call_cancel_order_def release_grid_level_def Let_def

text \<open>
  One call of \<open>check_grid_signals\<close> on the example: the buy levels find no USDT, the five
  sell levels pass their guard and each gets an order of 0.1 BTC.
\<close>

lemma example_ticked_world_eq:
  "example_ticked_world =
     \<lparr>eng = \<lparr>settings = example_settings,
        grid_state = \<lparr>base_price = 100000, current_price = 100500, grid_size = 2, upper_band = 0,
                      lower_band = 0, last_adjustment_time = 0, volatility = 0,
                      price_history = []\<rparr>,
        is_running = False,
        active_orders =
          [(102000, Some \<lparr>order_id = ''A''\<rparr>), (104000, Some \<lparr>order_id = ''B''\<rparr>),
           (106000, Some \<lparr>order_id = ''C''\<rparr>), (108000, Some \<lparr>order_id = ''D''\<rparr>),
           (110000, Some \<lparr>order_id = ''E''\<rparr>)],
        grid_levels =
          [(90000, \<lparr>side = Buy, level = - 5, occupied = False, last_attempt = 0\<rparr>),
           (92000, \<lparr>side = Buy, level = - 4, occupied = False, last_attempt = 0\<rparr>),
           (94000, \<lparr>side = Buy, level = - 3, occupied = False, last_attempt = 0\<rparr>),
           (96000, \<lparr>side = Buy, level = - 2, occupied = False, last_attempt = 0\<rparr>),
           (98000, \<lparr>side = Buy, level = - 1, occupied = False, last_attempt = 0\<rparr>),
           (102000, \<lparr>side = Sell, level = 1, occupied = True, last_attempt = 0\<rparr>),
           (104000, \<lparr>side = Sell, level = 2, occupied = True, last_attempt = 0\<rparr>),
           (106000, \<lparr>side = Sell, level = 3, occupied = True, last_attempt = 0\<rparr>),
           (108000, \<lparr>side = Sell, level = 4, occupied = True, last_attempt = 0\<rparr>),
           (110000, \<lparr>side = Sell, level = 5, occupied = True, last_attempt = 0\<rparr>)],
        last_trade_time = 0, last_trade_price = 0, trade_count = 0,
        failed_order_cooldown = 300, total_profit = 0\<rparr>,
      dm = \<lparr>stored_state = None, trades = []\<rparr>, ex = [],
      calls =
        [GetBalance, GetBalance, GetBalance, GetBalance, GetBalance,
         GetBalance, CreateLimitOrder Sell 0.1 102000,
         GetBalance, CreateLimitOrder Sell 0.1 104000,
         GetBalance, CreateLimitOrder Sell 0.1 106000,
         GetBalance, CreateLimitOrder Sell 0.1 108000,
         GetBalance, CreateLimitOrder Sell 0.1 110000,
         GetOrderStatus ''A'', GetOrderStatus ''B'', GetOrderStatus ''C'',
         GetOrderStatus ''D'', GetOrderStatus ''E'']\<rparr>"
  unfolding example_ticked_world_def check_grid_signals_def example_world_eq
  by (simp add: engine_eval)




subsection \<open>Profit of a fill\<close>

lemma release_grid_level_profit [simp]:
  "total_profit (eng (release_grid_level p w)) = total_profit (eng w)"
  by (simp add: release_grid_level_def)




subsection \<open>Saving and loading the state\<close>

text \<open>
  Claim C9. With no configured base price (\<open>initial_base_price = 0\<close>), an engine that
  loads (\<^verbatim>\<open>_load_state\<close>) what an engine saved (\<^verbatim>\<open>_save_state\<close>) has the base price, grid
  size, total profit and trade count of the saving engine at the time it saved. The
  persistence between the two is the one modelled from the spec.
\<close>

theorem save_load_round_trip:
  assumes "initial_base_price (settings (eng w')) = 0" and "dm w' = dm (save_state t w)"
  shows "base_price (grid_state (eng (load_state w'))) = base_price (grid_state (eng w)) \<and>
         grid_size (grid_state (eng (load_state w'))) = grid_size (grid_state (eng w)) \<and>
         total_profit (eng (load_state w')) = total_profit (eng w) \<and>
         trade_count (eng (load_state w')) = trade_count (eng w)"
  using assms
  by (simp add: load_state_def save_state_def save_state_dm_def load_state_dm_def
      empty_state_def get_or_def Let_def)

theorem save_load_round_trip_witness:
  "initial_base_price (settings (eng example_restarted_world)) = 0 \<and>
   dm example_restarted_world = dm (save_state 2000 example_filled_world) \<and>
   base_price (grid_state (eng example_restarted_world)) = 0 \<and>
   total_profit (eng example_restarted_world) = 0 \<and>
   trade_count (eng example_restarted_world) = 0 \<and>
   base_price (grid_state (eng (load_state example_restarted_world))) = 100000 \<and>
   grid_size (grid_state (eng (load_state example_restarted_world))) = 2 \<and>
   total_profit (eng (load_state example_restarted_world)) = 10 \<and>
   trade_count (eng (load_state example_restarted_world)) = 1"
proof -
  have h: "initial_base_price (settings (eng example_restarted_world)) = 0"
    "dm example_restarted_world = dm (save_state 2000 example_filled_world)"
    by (simp_all add: example_restarted_world_def new_engine_def example_settings_def)
  have before: "base_price (grid_state (eng example_restarted_world)) = 0"
    "total_profit (eng example_restarted_world) = 0"
    "trade_count (eng example_restarted_world) = 0"
    by (simp_all add: example_restarted_world_def new_engine_def new_grid_state_def)
  have saved: "base_price (grid_state (eng example_filled_world)) = 100000"
    "grid_size (grid_state (eng example_filled_world)) = 2"
    "total_profit (eng example_filled_world) = 10"
    "trade_count (eng example_filled_world) = 1"
    unfolding example_filled_world_def example_world_eq
    by (simp_all add: handle_order_filled_def example_levels example_fill_def example_api_def
        release_grid_level_def save_trade_dm_def Let_def)
  from save_load_round_trip [OF h] h before saved show ?thesis by simp
qed

subsection \<open>Emergency stop and the signal loop\<close>

text \<open>
  Claim C1 does not hold of the code. \<^verbatim>\<open>_check_grid_signals\<close> reads nothing of the risk
  manager: with the flag set by a risk cycle (position ratio 1), the tick of the example
  engine calls \<^verbatim>\<open>create_limit_order\<close> and the sell level at 102000 goes from free to
  occupied.
\<close>

theorem emergency_stop_not_consulted:
  "is_emergency_stop_active (run_cycles [example_env_all_in 1000 True] example_rm) \<and>
   calls example_world = [] \<and>
   map_of (grid_levels (eng example_world)) 102000
     = Some \<lparr>side = Sell, level = 1, occupied = False, last_attempt = 0\<rparr> \<and>
   CreateLimitOrder Sell 0.1 102000
     \<in> set (calls (check_grid_signals example_api 1000 example_world)) \<and>
   map_of (grid_levels (eng (check_grid_signals example_api 1000 example_world))) 102000
     = Some \<lparr>side = Sell, level = 1, occupied = True, last_attempt = 0\<rparr>"
proof -
  have "is_emergency_stop_active (run_cycles [example_env_all_in 1000 True] example_rm)"
    by (simp add: is_emergency_stop_active_def risk_eval)
  moreover have "calls example_world = []"
    "map_of (grid_levels (eng example_world)) 102000
       = Some \<lparr>side = Sell, level = 1, occupied = False, last_attempt = 0\<rparr>"
    by (simp_all add: example_world_eq example_levels)
  moreover have "check_grid_signals example_api 1000 example_world = example_ticked_world"
    by (simp add: example_ticked_world_def)
  ultimately show ?thesis by (simp add: example_ticked_world_eq)
qed

subsection \<open>Shutdown\<close>

text \<open>
  Claim C3 does not hold of the code. \<open>stop\<close> on the ticked example, whose five orders
  \<open>A\<close> to \<open>E\<close> are active and whose exchange fails to cancel \<open>B\<close>: the order \<open>A\<close> is
  cancelled and its level released, the failure on \<open>B\<close> ends the loop, no cancellation is
  attempted for \<open>C\<close>, \<open>D\<close> and \<open>E\<close>, and the levels of \<open>B\<close> to \<open>E\<close> stay occupied with
  their entries still in \<^verbatim>\<open>active_orders\<close>.
\<close>

theorem stop_ends_at_failed_cancel:
  "map fst (active_orders (eng example_ticked_world)) = [102000, 104000, 106000, 108000, 110000] \<and>
   calls example_stopped_world
     = calls example_ticked_world @ [CancelOrder ''A'', CancelOrder ''B''] \<and>
   active_orders (eng example_stopped_world)
     = [(104000, Some \<lparr>order_id = ''B''\<rparr>), (106000, Some \<lparr>order_id = ''C''\<rparr>),
        (108000, Some \<lparr>order_id = ''D''\<rparr>), (110000, Some \<lparr>order_id = ''E''\<rparr>)] \<and>
   map (\<lambda>p. map_option occupied (map_of (grid_levels (eng example_stopped_world)) p))
       [102000, 104000, 106000, 108000, 110000]
     = [Some False, Some True, Some True, Some True, Some True]"
  unfolding example_stopped_world_def example_ticked_world_eq
  by (simp add: stop_def cancel_all_orders_def call_cancel_order_def release_grid_level_def
      save_state_def save_state_dm_def example_api_def Let_def)

end
